theory Spec2Isabelle
  imports Complex_Main "HOL-Library.Multiset"
begin

section \<open>Data model\<close>

text \<open>
  The program keeps every table as a pandas data frame. A row of the transaction table
  \<open>df_transactions\<close> and a row of the ledger \<open>df_balance\<close> have the same columns (the
  ledger starts as a copy of the purchase rows and later receives the second row of each
  swap), so one record serves both. Timestamps are natural numbers, quantities and
  prices are rationals (exact arithmetic), the text columns are strings.
\<close>

record row =
  Date :: nat
  Type :: string
  Asset :: string
  Units :: rat
  Unit_Price :: rat
  Currency :: string
  Type_Orig :: string

text \<open>
  The module-level parameters \<open>TAX_RATE\<close>, \<open>METHOD\<close> and \<open>CURRENCY\<close>, and one input
  that is not a parameter of the source. The source rounds the float64 value of an
  average to two decimals. When the exact average lies halfway between two multiples of
  1/100, the float64 value lies on one side or the other, by the representation error
  of the prices and units it was computed from, and the side is not a function of the
  exact average. \<open>tie_rounds_up\<close> says, for the sale at a given date, which side that is.
\<close>

record config =
  TAX_RATE :: rat
  METHOD :: string
  CURRENCY :: string
  tie_rounds_up :: "nat \<Rightarrow> bool"

definition default_config :: config where
  "default_config =
     \<lparr>TAX_RATE = 275 / 1000, METHOD = ''ACB'', CURRENCY = ''EUR'',
      tie_rounds_up = (\<lambda>date. False)\<rparr>"

text \<open>One dictionary appended to \<open>sales_taxes\<close> or to \<open>mining_taxes\<close>.\<close>

record tax_entry =
  Capital_Gain :: rat
  Taxes :: rat
  Net_Profit :: rat
  Average_Unit_Price :: rat

text \<open>
  The outcomes that end a run. \<open>IndexError\<close>, \<open>TooManyUnits\<close>, \<open>MethodNotImplemented\<close>
  and \<open>NameError\<close> are exceptions of the source. \<open>NonFinite\<close> is not raised by the
  source: it marks a quotient with divisor zero whose value is read afterwards. The
  source computes in float64, where such a quotient is \<open>inf\<close> or \<open>nan\<close> and the run goes
  on; exact arithmetic has no such value, so the model stops there.
\<close>

datatype error = IndexError | TooManyUnits | MethodNotImplemented | NameError | NonFinite

section \<open>Gains and taxes of one sale\<close>

definition tax_calculator_ACB :: "config \<Rightarrow> rat \<Rightarrow> rat \<Rightarrow> rat \<Rightarrow> rat \<times> rat" where
  "tax_calculator_ACB cfg selling_units selling_price average_purchase_price =
     (let average_purchase_value = selling_units * average_purchase_price;
          sold_value = selling_units * selling_price;
          capital_gain = sold_value - average_purchase_value;
          taxes = (if capital_gain > 0 then capital_gain * TAX_RATE cfg else 0)
      in (capital_gain, taxes))"

section \<open>Proportional depletion\<close>

text \<open>\<open>df[df["Units"] > 0]\<close>: the orders that no longer have units leave the frame.\<close>

definition remove_empty_orders :: "row list \<Rightarrow> row list" where
  "remove_empty_orders df = filter (\<lambda>r. Units r > 0) df"

text \<open>
  The second component is the adjusted running average. Its divisor
  \<open>number_of_purchase_orders - counter_order\<close> is zero at the last order; the float64
  quotient is then \<open>inf\<close>, written \<open>None\<close> here.
\<close>

definition calculate_units_to_remove_from_purchase_order ::
  "rat \<Rightarrow> rat \<Rightarrow> nat \<Rightarrow> nat \<Rightarrow> rat \<times> rat option" where
  "calculate_units_to_remove_from_purchase_order purchase_order_units units_to_sell_avg
       number_of_purchase_orders counter_order =
     (let units_diff = purchase_order_units - units_to_sell_avg
      in if units_diff < 0
         then (let n = int number_of_purchase_orders - int counter_order
               in (purchase_order_units,
                   if n = 0 then None else Some (units_to_sell_avg + \<bar>units_diff\<bar> / of_int n)))
         else (units_to_sell_avg, Some units_to_sell_avg))"

text \<open>
  The loop of \<open>update_balance\<close>. Both call sites pass the same frame as \<open>df_balance\<close> and
  as \<open>df_balance_asset\<close>, and its index labels are unique, so subtracting at label \<open>j\<close>
  changes the row being visited. Rows of another asset are skipped by the loop's
  filter. The arguments are the asset, the number of orders, the counter, the running
  average, the units removed so far and the rows still to visit; reading a running
  average that is not finite ends the loop with \<open>None\<close>.
\<close>

fun update_balance_loop ::
  "string \<Rightarrow> nat \<Rightarrow> nat \<Rightarrow> rat option \<Rightarrow> rat \<Rightarrow> row list \<Rightarrow> (row list \<times> rat) option" where
  "update_balance_loop asset_to_sell n counter_order avg tot_units_sold [] =
     Some ([], tot_units_sold)"
| "update_balance_loop asset_to_sell n counter_order avg tot_units_sold (row_b # rest) =
     (if Asset row_b = asset_to_sell
      then (case avg of
              None \<Rightarrow> None
            | Some units_to_sell_avg \<Rightarrow>
                (let (units_to_sell, avg') =
                       calculate_units_to_remove_from_purchase_order
                         (Units row_b) units_to_sell_avg n counter_order
                 in (case update_balance_loop asset_to_sell n (counter_order + 1) avg'
                            (tot_units_sold + units_to_sell) rest of
                       None \<Rightarrow> None
                     | Some (rest', tot) \<Rightarrow>
                         Some (row_b\<lparr>Units := Units row_b - units_to_sell\<rparr> # rest', tot))))
      else (case update_balance_loop asset_to_sell n counter_order avg tot_units_sold rest of
              None \<Rightarrow> None
            | Some (rest', tot) \<Rightarrow> Some (row_b # rest', tot)))"

definition update_balance :: "row list \<Rightarrow> rat \<Rightarrow> string \<Rightarrow> (row list \<times> rat) option" where
  "update_balance df_balance_asset total_units_to_sell asset_to_sell =
     (let number_of_purchase_orders =
            length (filter (\<lambda>r. Asset r = asset_to_sell) df_balance_asset);
          units_to_sell_avg =
            (if number_of_purchase_orders = 0 then None
             else Some (total_units_to_sell / of_nat number_of_purchase_orders))
      in (case update_balance_loop asset_to_sell number_of_purchase_orders 1
                 units_to_sell_avg 0 df_balance_asset of
            None \<Rightarrow> None
          | Some (df_balance, tot_units_sold) \<Rightarrow>
              Some (remove_empty_orders df_balance, tot_units_sold)))"

section \<open>Depletion in lot order\<close>

text \<open>
  The loop of \<open>tax_calculator_XYFO\<close>, over the rows in the order the caller sorted
  them. The arguments are the selling price, the units left to sell, the units
  removed and the gain accumulated so far, and the rows still to visit; the rows after
  the one that ends the loop keep their units.
\<close>

fun tax_calculator_XYFO_loop ::
  "rat \<Rightarrow> rat \<Rightarrow> rat \<Rightarrow> rat \<Rightarrow> row list \<Rightarrow> row list \<times> rat \<times> rat" where
  "tax_calculator_XYFO_loop selling_price units_to_sell tot_units_sold capital_gain [] =
     ([], tot_units_sold, capital_gain)"
| "tax_calculator_XYFO_loop selling_price units_to_sell tot_units_sold capital_gain
       (row_b # rest) =
     (if Units row_b \<le> units_to_sell
      then (let units_sold = Units row_b;
                cg = units_sold * (selling_price - Unit_Price row_b);
                (rest', tot, gain) =
                  tax_calculator_XYFO_loop selling_price (units_to_sell - units_sold)
                    (tot_units_sold + units_sold) (capital_gain + cg) rest
            in (row_b\<lparr>Units := 0\<rparr> # rest', tot, gain))
      else (let units_sold = units_to_sell;
                cg = units_sold * (selling_price - Unit_Price row_b)
            in (row_b\<lparr>Units := Units row_b - units_to_sell\<rparr> # rest,
                tot_units_sold + units_sold, capital_gain + cg)))"

definition tax_calculator_XYFO ::
  "config \<Rightarrow> rat \<Rightarrow> rat \<Rightarrow> row list \<Rightarrow> rat \<times> rat \<times> row list \<times> rat" where
  "tax_calculator_XYFO cfg selling_units selling_price df_balance_temp =
     (let (df_balance, tot_units_sold, capital_gain) =
            tax_calculator_XYFO_loop selling_price selling_units 0 0 df_balance_temp;
          taxes = (if capital_gain > 0 then capital_gain * TAX_RATE cfg else 0)
      in (capital_gain, taxes, df_balance, tot_units_sold))"

section \<open>The event loop\<close>

text \<open>
  \<open>sort_values\<close> in ascending and in descending order. pandas sorts descending by
  reversing the frame, sorting ascending and reversing the result; with a stable
  ascending sort, rows of equal key keep the order they have in the frame. pandas does
  not promise a stable sort for its default algorithm, so the order among rows of equal
  key is the model's choice.
\<close>

definition sort_values :: "(row \<Rightarrow> 'k::linorder) \<Rightarrow> row list \<Rightarrow> row list" where
  "sort_values key df = sort_key key df"

definition sort_values_descending :: "(row \<Rightarrow> 'k::linorder) \<Rightarrow> row list \<Rightarrow> row list" where
  "sort_values_descending key df = rev (sort_key key (rev df))"

text \<open>
  The selection \<open>df_balance[(Asset == asset) & (Date < date)]\<close> that both the swap and
  the sell branch hand to the depletion.
\<close>

definition select_balance_asset :: "row list \<Rightarrow> string \<Rightarrow> nat \<Rightarrow> row list" where
  "select_balance_asset df_balance asset date =
     filter (\<lambda>r. Asset r = asset \<and> Date r < date) df_balance"

text \<open>
  The expression \<open>(Units * Unit Price).sum() / Units.sum()\<close>. Its value is read by the
  caller, so a zero divisor is \<open>None\<close>.
\<close>

definition weighted_average_price :: "row list \<Rightarrow> rat option" where
  "weighted_average_price df_balance_asset =
     (let total_units = sum_list (map Units df_balance_asset)
      in if total_units = 0 then None
         else Some (sum_list (map (\<lambda>r. Units r * Unit_Price r) df_balance_asset)
                    / total_units))"

text \<open>
  \<open>round(x, 2)\<close>: the nearest multiple of 1/100. At a tie the first argument gives the
  side, as explained at \<open>tie_rounds_up\<close>; no example below is at a tie.
\<close>

definition round_2 :: "bool \<Rightarrow> rat \<Rightarrow> rat" where
  "round_2 tie_up x =
     (let f = \<lfloor>x * 100\<rfloor>; d = x * 100 - of_int f
      in of_int (if d < 1 / 2 then f
                 else if d > 1 / 2 then f + 1
                 else if tie_up then f + 1 else f) / 100)"

text \<open>
  The new ledger: the depleted rows, the rows of the other assets dated before the
  event and all rows dated after it, sorted by date.
\<close>

definition rebuild_balance :: "row list \<Rightarrow> row list \<Rightarrow> string \<Rightarrow> nat \<Rightarrow> row list" where
  "rebuild_balance df_balance df_balance_asset_updated asset date =
     (let df_balance_other_previous_assets =
            filter (\<lambda>r. Asset r \<noteq> asset \<and> Date r < date) df_balance
      in sort_values Date
           (df_balance_asset_updated @ df_balance_other_previous_assets
            @ filter (\<lambda>r. Date r > date) df_balance))"

text \<open>
  What the loop reads and writes: the ledger, the list \<open>sales_taxes\<close> and the global
  variable \<open>average_purchase_price\<close>, which is unbound (\<open>None\<close>) until a swap or a sale
  under ACB assigns it.
\<close>

record state =
  df_balance :: "row list"
  sales_taxes :: "tax_entry list"
  average_purchase_price :: "rat option"

definition swap_event :: "config \<Rightarrow> row list \<Rightarrow> state \<Rightarrow> nat \<Rightarrow> error + state" where
  "swap_event cfg df_transactions st date =
     (case filter (\<lambda>r. Type r = ''Swap'' \<and> Date r = date) df_transactions of
        asset_out # asset_in # _ \<Rightarrow>
          (let df_balance_asset =
                 select_balance_asset (df_balance st) (Asset asset_out) date
           in case weighted_average_price df_balance_asset of
                None \<Rightarrow> Inl NonFinite
              | Some pooled \<Rightarrow>
                  if Units asset_in = 0 then Inl NonFinite
                  else (let price = pooled * Units asset_out / Units asset_in
                        in case update_balance df_balance_asset (Units asset_out)
                                  (Asset asset_out) of
                             None \<Rightarrow> Inl NonFinite
                           | Some (df_balance_asset_updated, _) \<Rightarrow>
                               Inr (st\<lparr>df_balance :=
                                          rebuild_balance (df_balance st)
                                            (df_balance_asset_updated
                                             @ [asset_in\<lparr>Unit_Price := price,
                                                         Currency := ''EUR''\<rparr>])
                                            (Asset asset_out) date,
                                        average_purchase_price := Some price\<rparr>)))
      | _ \<Rightarrow> Inl IndexError)"

text \<open>
  The end of the sell branch: the dictionary appended to \<open>sales_taxes\<close>, which reads the
  global variable, and the new ledger.
\<close>

definition store_sale ::
  "config \<Rightarrow> state \<Rightarrow> rat \<Rightarrow> rat \<Rightarrow> row list \<Rightarrow> string \<Rightarrow> nat \<Rightarrow> error + state" where
  "store_sale cfg st capital_gain taxes df_balance_asset_updated asset date =
     (case average_purchase_price st of
        None \<Rightarrow> Inl NameError
      | Some price \<Rightarrow>
          Inr (st\<lparr>sales_taxes :=
                     sales_taxes st
                     @ [\<lparr>Capital_Gain = capital_gain, Taxes = taxes,
                         Net_Profit = capital_gain - taxes,
                         Average_Unit_Price = round_2 (tie_rounds_up cfg date) price\<rparr>],
                   df_balance :=
                     rebuild_balance (df_balance st) df_balance_asset_updated asset date\<rparr>))"

definition sell_event :: "config \<Rightarrow> row list \<Rightarrow> state \<Rightarrow> nat \<Rightarrow> error + state" where
  "sell_event cfg df_transactions st date =
     (case filter (\<lambda>r. Type r = ''Sell'' \<and> Date r = date) df_transactions of
        [] \<Rightarrow> Inl IndexError
      | sell # _ \<Rightarrow>
          (let df_balance_asset = select_balance_asset (df_balance st) (Asset sell) date
           in if Units sell \<le> sum_list (map Units df_balance_asset)
              then if METHOD cfg = ''ACB''
                   then (let sorted = sort_values Units df_balance_asset
                         in case weighted_average_price sorted of
                              None \<Rightarrow> Inl NonFinite
                            | Some price \<Rightarrow>
                                (let (capital_gain, taxes) =
                                       tax_calculator_ACB cfg (Units sell) (Unit_Price sell)
                                         price
                                 in case update_balance sorted (Units sell) (Asset sell) of
                                      None \<Rightarrow> Inl NonFinite
                                    | Some (df_balance_asset_updated, tot_units_sold) \<Rightarrow>
                                        store_sale cfg
                                          (st\<lparr>average_purchase_price := Some price\<rparr>)
                                          capital_gain taxes df_balance_asset_updated
                                          (Asset sell) date))
                   else if METHOD cfg \<in> {''FIFO'', ''LIFO'', ''HIFO''}
                   then (let sorted =
                               (if METHOD cfg = ''FIFO''
                                then sort_values Date df_balance_asset
                                else if METHOD cfg = ''LIFO''
                                then sort_values_descending Date df_balance_asset
                                else sort_values_descending Unit_Price df_balance_asset);
                             (capital_gain, taxes, df_balance_asset_updated, tot_units_sold) =
                               tax_calculator_XYFO cfg (Units sell) (Unit_Price sell) sorted
                         in store_sale cfg st capital_gain taxes
                              (remove_empty_orders df_balance_asset_updated)
                              (Asset sell) date)
                   else Inl MethodNotImplemented
              else Inl TooManyUnits))"

text \<open>
  One turn of the loop over \<open>change_events\<close>; an event that is neither a swap nor a
  sale changes nothing. The balance snapshots taken after each turn only read the
  ledger and are left out.
\<close>

definition process_change :: "config \<Rightarrow> row list \<Rightarrow> state \<Rightarrow> nat \<times> string \<Rightarrow> error + state" where
  "process_change cfg df_transactions st change =
     (if snd change = ''Swap'' then swap_event cfg df_transactions st (fst change)
      else if snd change = ''Sell'' then sell_event cfg df_transactions st (fst change)
      else Inr st)"

fun process_changes ::
  "config \<Rightarrow> row list \<Rightarrow> state \<Rightarrow> (nat \<times> string) list \<Rightarrow> error + state" where
  "process_changes cfg df_transactions st [] = Inr st"
| "process_changes cfg df_transactions st (change # rest) =
     (case process_change cfg df_transactions st change of
        Inl e \<Rightarrow> Inl e
      | Inr st' \<Rightarrow> process_changes cfg df_transactions st' rest)"

section \<open>Loading, and the taxes on mining\<close>

text \<open>The rewriting of airdrop, staking and mining rows after the file is read.\<close>

definition load_transaction :: "config \<Rightarrow> row \<Rightarrow> row" where
  "load_transaction cfg r =
     (let r = r\<lparr>Type_Orig := Type r\<rparr>
      in if Type r = ''Airdrop'' \<or> Type r = ''Staking''
         then r\<lparr>Unit_Price := 0, Currency := CURRENCY cfg, Type := ''Purchase''\<rparr>
         else if Type r = ''Mining''
         then r\<lparr>Currency := CURRENCY cfg, Type := ''Purchase''\<rparr>
         else r)"

definition df_purchase :: "row list \<Rightarrow> row list" where
  "df_purchase df_transactions =
     filter (\<lambda>r. Type r = ''Purchase'' \<or> Type r = ''Airdrop'') df_transactions"

text \<open>\<open>drop_duplicates\<close> keeps the first of equal rows.\<close>

fun drop_duplicates :: "'a list \<Rightarrow> 'a list" where
  "drop_duplicates [] = []"
| "drop_duplicates (x # xs) = x # drop_duplicates (filter (\<lambda>y. y \<noteq> x) xs)"

definition change_events :: "row list \<Rightarrow> (nat \<times> string) list" where
  "change_events df_transactions =
     drop_duplicates
       (map (\<lambda>r. (Date r, Type r)) (filter (\<lambda>r. Type r \<noteq> ''Purchase'') df_transactions))"

definition initial_state :: "row list \<Rightarrow> state" where
  "initial_state df_transactions =
     \<lparr>df_balance = df_purchase df_transactions, sales_taxes = [],
      average_purchase_price = None\<rparr>"

text \<open>
  The run from the rows of the file. Before the loop the source takes the date of the
  first row that is not a purchase (\<open>iloc[0]\<close>) and the last purchase dated before it
  (\<open>iloc[-1]\<close>); either raises when there is no such row.
\<close>

definition calculate_taxes :: "config \<Rightarrow> row list \<Rightarrow> error + state" where
  "calculate_taxes cfg rows =
     (let df_transactions = map (load_transaction cfg) rows
      in case filter (\<lambda>r. Type r \<noteq> ''Purchase'') df_transactions of
           [] \<Rightarrow> Inl IndexError
         | first_transaction # _ \<Rightarrow>
             if filter (\<lambda>r. Date r < Date first_transaction) (df_purchase df_transactions)
                = []
             then Inl IndexError
             else process_changes cfg df_transactions (initial_state df_transactions)
                    (change_events df_transactions))"

definition mining_tax :: "config \<Rightarrow> row \<Rightarrow> tax_entry" where
  "mining_tax cfg mine =
     (let capita_gain = Unit_Price mine;
          tax = capita_gain * TAX_RATE cfg;
          net_profit = capita_gain - tax;
          average_unit_price = Unit_Price mine
      in \<lparr>Capital_Gain = capita_gain, Taxes = tax, Net_Profit = net_profit,
          Average_Unit_Price = average_unit_price\<rparr>)"

definition mining_taxes :: "config \<Rightarrow> row list \<Rightarrow> tax_entry list" where
  "mining_taxes cfg df_transactions =
     map (mining_tax cfg) (filter (\<lambda>r. Type_Orig r = ''Mining'') df_transactions)"

section \<open>The shape of a tax entry\<close>

text \<open>The tax is the rate on a positive gain and nothing otherwise; the net profit is
  what remains of the gain.\<close>

definition tax_entry_ok :: "config \<Rightarrow> tax_entry \<Rightarrow> bool" where
  "tax_entry_ok cfg e \<longleftrightarrow>
     Taxes e = max 0 (Capital_Gain e) * TAX_RATE cfg
     \<and> Net_Profit e = Capital_Gain e - Taxes e"

section \<open>Example rows\<close>

text \<open>Rows in EUR, as the file would hold them, and a state at the start of a run.\<close>

definition transaction :: "nat \<Rightarrow> string \<Rightarrow> string \<Rightarrow> rat \<Rightarrow> rat \<Rightarrow> row" where
  "transaction d t a u p =
     \<lparr>Date = d, Type = t, Asset = a, Units = u, Unit_Price = p, Currency = ''EUR'',
      Type_Orig = t\<rparr>"

definition purchase :: "nat \<Rightarrow> string \<Rightarrow> rat \<Rightarrow> rat \<Rightarrow> row" where
  "purchase d a u p = transaction d ''Purchase'' a u p"

definition ledger_state :: "row list \<Rightarrow> state" where
  "ledger_state df = \<lparr>df_balance = df, sales_taxes = [], average_purchase_price = None\<rparr>"

definition fifo_config :: config where
  "fifo_config = default_config\<lparr>METHOD := ''FIFO''\<rparr>"

definition usd_config :: config where
  "usd_config = default_config\<lparr>CURRENCY := ''USD''\<rparr>"

section \<open>Facts about the steps\<close>

lemma set_rebuild_balance:
  "set (rebuild_balance L upd a d) =
     set upd \<union> {r \<in> set L. Asset r \<noteq> a \<and> Date r < d} \<union> {r \<in> set L. d < Date r}"
  by (auto simp: rebuild_balance_def sort_values_def Let_def)

lemma update_balance_positive:
  "update_balance rows T a = Some (upd, tot) \<Longrightarrow> r \<in> set upd \<Longrightarrow> 0 < Units r"
  by (auto simp: update_balance_def remove_empty_orders_def Let_def split: option.splits)

lemma store_sale_InrD:
  assumes "store_sale cfg st g t upd a d = Inr st'"
  shows "\<exists>p. average_purchase_price st = Some p
     \<and> sales_taxes st' = sales_taxes st
          @ [\<lparr>Capital_Gain = g, Taxes = t, Net_Profit = g - t,
              Average_Unit_Price = round_2 (tie_rounds_up cfg d) p\<rparr>]
     \<and> df_balance st' = rebuild_balance (df_balance st) upd a d
     \<and> average_purchase_price st' = average_purchase_price st"
  using assms by (auto simp: store_sale_def split: option.splits)

text \<open>What a swap that went through has done.\<close>

lemma swap_event_InrD:
  assumes "swap_event cfg txs st d = Inr st'"
  shows "\<exists>out inn rest pooled upd tot.
      filter (\<lambda>r. Type r = ''Swap'' \<and> Date r = d) txs = out # inn # rest
    \<and> weighted_average_price (select_balance_asset (df_balance st) (Asset out) d)
        = Some pooled
    \<and> Units inn \<noteq> 0
    \<and> update_balance (select_balance_asset (df_balance st) (Asset out) d) (Units out)
         (Asset out) = Some (upd, tot)
    \<and> st' = st\<lparr>df_balance := rebuild_balance (df_balance st)
                 (upd @ [inn\<lparr>Unit_Price := pooled * Units out / Units inn,
                              Currency := ''EUR''\<rparr>]) (Asset out) d,
               average_purchase_price := Some (pooled * Units out / Units inn)\<rparr>"
  using assms unfolding swap_event_def
  by (auto simp: Let_def split: list.splits option.splits if_splits prod.splits)

text \<open>What a sale that went through has done to the ledger.\<close>

lemma sell_event_InrD:
  assumes "sell_event cfg txs st d = Inr st'"
  shows "\<exists>sell rest upd.
       filter (\<lambda>r. Type r = ''Sell'' \<and> Date r = d) txs = sell # rest
     \<and> df_balance st' = rebuild_balance (df_balance st) upd (Asset sell) d
     \<and> (\<forall>r\<in>set upd. 0 < Units r)"
  using assms unfolding sell_event_def
  by (auto simp: Let_def remove_empty_orders_def
      split: list.splits option.splits if_splits prod.splits
      dest!: store_sale_InrD dest: update_balance_positive)

lemma sell_event_ACB_InrD:
  assumes "METHOD cfg = ''ACB''" and "sell_event cfg txs st d = Inr st'"
  shows "\<exists>sell rest p upd tot.
      filter (\<lambda>r. Type r = ''Sell'' \<and> Date r = d) txs = sell # rest
    \<and> Units sell \<le> sum_list (map Units (select_balance_asset (df_balance st) (Asset sell) d))
    \<and> weighted_average_price
         (sort_values Units (select_balance_asset (df_balance st) (Asset sell) d)) = Some p
    \<and> update_balance (sort_values Units (select_balance_asset (df_balance st) (Asset sell) d))
         (Units sell) (Asset sell) = Some (upd, tot)
    \<and> st' = st\<lparr>average_purchase_price := Some p,
               sales_taxes := sales_taxes st @
                 [\<lparr>Capital_Gain = fst (tax_calculator_ACB cfg (Units sell) (Unit_Price sell) p),
                   Taxes = snd (tax_calculator_ACB cfg (Units sell) (Unit_Price sell) p),
                   Net_Profit = fst (tax_calculator_ACB cfg (Units sell) (Unit_Price sell) p)
                              - snd (tax_calculator_ACB cfg (Units sell) (Unit_Price sell) p),
                   Average_Unit_Price = round_2 (tie_rounds_up cfg d) p\<rparr>],
               df_balance := rebuild_balance (df_balance st) upd (Asset sell) d\<rparr>"
  using assms unfolding sell_event_def store_sale_def
  by (auto simp: Let_def split: list.splits option.splits if_splits prod.splits)

text \<open>The sale of more units than the eligible lots hold is refused, under any method.\<close>

lemma sell_event_too_many_units:
  assumes "filter (\<lambda>r. Type r = ''Sell'' \<and> Date r = d) txs = sell # rest"
      and "sum_list (map Units (select_balance_asset (df_balance st) (Asset sell) d))
           < Units sell"
  shows "sell_event cfg txs st d = Inl TooManyUnits"
  using assms by (simp add: sell_event_def)

subsection \<open>Taxes\<close>

lemma tax_calculator_ACB_floor:
  "tax_calculator_ACB cfg u sp p = (g, t) \<Longrightarrow> t = max 0 g * TAX_RATE cfg"
  by (auto simp: tax_calculator_ACB_def Let_def max_def)

lemma tax_calculator_XYFO_floor:
  "tax_calculator_XYFO cfg u sp rows = (g, t, upd, tot) \<Longrightarrow> t = max 0 g * TAX_RATE cfg"
  by (auto simp: tax_calculator_XYFO_def Let_def max_def split: prod.splits)

lemma sell_event_entry:
  assumes "sell_event cfg txs st d = Inr st'"
  shows "\<exists>e. sales_taxes st' = sales_taxes st @ [e] \<and> tax_entry_ok cfg e"
  using assms unfolding sell_event_def
  by (auto simp: Let_def tax_entry_ok_def
      split: list.splits option.splits if_splits prod.splits
      dest!: store_sale_InrD tax_calculator_ACB_floor tax_calculator_XYFO_floor)

lemma swap_event_sales_taxes:
  assumes "swap_event cfg txs st d = Inr st'"
  shows "sales_taxes st' = sales_taxes st"
  using swap_event_InrD[OF assms] by auto

lemma process_change_entries:
  assumes "process_change cfg txs st c = Inr st'"
      and "\<forall>e\<in>set (sales_taxes st). tax_entry_ok cfg e"
  shows "\<forall>e\<in>set (sales_taxes st'). tax_entry_ok cfg e"
  using assms unfolding process_change_def
  by (auto split: if_splits dest!: sell_event_entry swap_event_sales_taxes)

lemma process_changes_entries:
  "process_changes cfg txs st cs = Inr st' \<Longrightarrow>
   \<forall>e\<in>set (sales_taxes st). tax_entry_ok cfg e \<Longrightarrow>
   \<forall>e\<in>set (sales_taxes st'). tax_entry_ok cfg e"
proof (induction cs arbitrary: st)
  case Nil
  then show ?case by simp
next
  case (Cons c cs)
  then show ?case
    by (auto split: sum.splits dest: process_change_entries)
qed

lemma mining_tax_entry:
  "Capital_Gain (mining_tax cfg mine) = Unit_Price mine
   \<and> Taxes (mining_tax cfg mine) = Unit_Price mine * TAX_RATE cfg
   \<and> Net_Profit (mining_tax cfg mine) = Unit_Price mine - Unit_Price mine * TAX_RATE cfg
   \<and> Average_Unit_Price (mining_tax cfg mine) = Unit_Price mine"
  by (simp add: mining_tax_def Let_def)

subsection \<open>Selection and pooled price\<close>

lemma select_balance_asset_same_date:
  "Date r = d \<Longrightarrow>
   select_balance_asset (xs @ r # ys) a d = select_balance_asset (xs @ ys) a d"
  by (simp add: select_balance_asset_def)

lemma rebuild_balance_same_date:
  "Date r = d \<Longrightarrow> rebuild_balance (xs @ r # ys) upd a d = rebuild_balance (xs @ ys) upd a d"
  by (simp add: rebuild_balance_def)

lemma sum_list_map_mset:
  fixes f :: "row \<Rightarrow> rat"
  shows "mset xs = mset ys \<Longrightarrow> sum_list (map f xs) = sum_list (map f ys)"
  by (metis mset_map sum_mset_sum_list)


subsection \<open>The proportional pass reads no quotient by zero\<close>

text \<open>
  The running average is not finite only after the last order of the asset, or when
  there is no order at all; no order is visited after that. So \<open>update_balance\<close>
  always returns, and the outcome \<open>NonFinite\<close> of a step never comes from it.
\<close>

lemma update_balance_loop_finite:
  assumes "k + length (filter (\<lambda>r. Asset r = a) rows) = n + 1"
      and "avg = None \<longrightarrow> filter (\<lambda>r. Asset r = a) rows = []"
  shows "\<exists>res. update_balance_loop a n k avg tot rows = Some res"
  using assms
proof (induction rows arbitrary: k avg tot)
  case Nil
  then show ?case by simp
next
  case (Cons r rs)
  show ?case
  proof (cases "Asset r = a")
    case False
    with Cons.prems have "\<exists>res. update_balance_loop a n k avg tot rs = Some res"
      by (intro Cons.IH) auto
    with False show ?thesis by auto
  next
    case True
    with Cons.prems(2) obtain v where v: "avg = Some v" by auto
    obtain s avg' where c: "calculate_units_to_remove_from_purchase_order (Units r) v n k = (s, avg')"
      by (cases "calculate_units_to_remove_from_purchase_order (Units r) v n k")
    have len: "Suc k + length (filter (\<lambda>r. Asset r = a) rs) = n + 1"
      using Cons.prems(1) True by simp
    have "avg' = None \<longrightarrow> filter (\<lambda>r. Asset r = a) rs = []"
      using c len
      by (auto simp: calculate_units_to_remove_from_purchase_order_def Let_def split: if_splits)
    with len have "\<exists>res. update_balance_loop a n (Suc k) avg' (tot + s) rs = Some res"
      by (intro Cons.IH) auto
    with True v c show ?thesis by auto
  qed
qed

lemma update_balance_finite: "\<exists>upd tot. update_balance rows T a = Some (upd, tot)"
proof -
  let ?n = "length (filter (\<lambda>r. Asset r = a) rows)"
  have "\<exists>res. update_balance_loop a ?n 1
           (if ?n = 0 then None else Some (T / of_nat ?n)) 0 rows = Some res"
    by (rule update_balance_loop_finite) auto
  then show ?thesis
    by (auto simp: update_balance_def Let_def)
qed

subsection \<open>Sales conserve units\<close>

text \<open>
  On lots in ascending order of units that hold at least the units asked for, the lots
  that are short come first and are emptied, and the others share the rest evenly: the
  pass removes what was asked. The pass in lot order of FIFO, LIFO and HIFO removes
  what was asked from any order of the lots. Hence every sale that goes through takes
  the units sold, no more and no less, from the ledger rows of the asset dated before
  the sale.
\<close>

lemma sum_list_ge_length:
  fixes v :: rat
  shows "\<forall>x\<in>set xs. v \<le> x \<Longrightarrow> of_nat (length xs) * v \<le> sum_list xs"
  by (induction xs) (auto simp: algebra_simps)

lemma update_balance_loop_conserves:
  assumes "\<forall>r\<in>set rows. Asset r = a"
      and "sorted (map Units rows)"
      and "rows \<noteq> []"
      and "k + length rows = n + 1"
      and "of_nat (length rows) * v \<le> sum_list (map Units rows)"
  shows "\<exists>rows'. update_balance_loop a n k (Some v) tot rows
             = Some (rows', tot + of_nat (length rows) * v)
           \<and> sum_list (map Units rows) - sum_list (map Units rows') = of_nat (length rows) * v
           \<and> (\<forall>r\<in>set rows'. 0 \<le> Units r)"
  using assms
proof (induction rows arbitrary: k v tot)
  case Nil
  then show ?case by simp
next
  case (Cons r rs)
  have a: "Asset r = a" using Cons.prems(1) by simp
  show ?case
  proof (cases rs)
    case Nil
    with Cons.prems have "v \<le> Units r" by simp
    with Nil a show ?thesis
      by (simp add: calculate_units_to_remove_from_purchase_order_def Let_def)
  next
    case (Cons r2 rs2)
    let ?m = "length rs"
    have m: "0 < ?m" using Cons by simp
    have nk: "int n - int k = int ?m" using Cons.prems(4) by simp
    have sorted_rs: "sorted (map Units rs)" and ge: "\<forall>x\<in>set (map Units rs). Units r \<le> x"
      using Cons.prems(2) by auto
    have all_rs: "\<forall>r\<in>set rs. Asset r = a" using Cons.prems(1) by simp
    have rs_ne: "rs \<noteq> []" using Cons by simp
    have len: "Suc k + length rs = n + 1" using Cons.prems(4) by simp
    show ?thesis
    proof (cases "Units r - v < 0")
      case True
      let ?v' = "v + \<bar>Units r - v\<bar> / of_int (int ?m)"
      have c: "calculate_units_to_remove_from_purchase_order (Units r) v n k = (Units r, Some ?v')"
        using True nk m
        by (simp add: calculate_units_to_remove_from_purchase_order_def Let_def)
      have eq: "of_nat ?m * ?v' = of_nat (Suc ?m) * v - Units r"
        using True m by (simp add: field_simps)
      have "of_nat ?m * ?v' \<le> sum_list (map Units rs)"
        using Cons.prems(5) eq by simp
      from Cons.IH[OF all_rs sorted_rs rs_ne len this, of "tot + Units r"]
      obtain rows' where
        l: "update_balance_loop a n (Suc k) (Some ?v') (tot + Units r) rs
              = Some (rows', tot + Units r + of_nat ?m * ?v')"
        and s: "sum_list (map Units rs) - sum_list (map Units rows') = of_nat ?m * ?v'"
        and p: "\<forall>r\<in>set rows'. 0 \<le> Units r"
        by blast
      show ?thesis
        using a c l s p eq by (simp add: algebra_simps)
    next
      case False
      have c: "calculate_units_to_remove_from_purchase_order (Units r) v n k = (v, Some v)"
        using False
        by (simp add: calculate_units_to_remove_from_purchase_order_def Let_def)
      have "\<forall>x\<in>set (map Units rs). v \<le> x" using ge False by force
      then have "of_nat ?m * v \<le> sum_list (map Units rs)"
        using sum_list_ge_length[of "map Units rs" v] by simp
      from Cons.IH[OF all_rs sorted_rs rs_ne len this, of "tot + v"]
      obtain rows' where
        l: "update_balance_loop a n (Suc k) (Some v) (tot + v) rs
              = Some (rows', tot + v + of_nat ?m * v)"
        and s: "sum_list (map Units rs) - sum_list (map Units rows') = of_nat ?m * v"
        and p: "\<forall>r\<in>set rows'. 0 \<le> Units r"
        by blast
      show ?thesis
        using a c l s p False by (simp add: algebra_simps)
    qed
  qed
qed


lemma sum_list_remove_empty_orders:
  "\<forall>r\<in>set rows. 0 \<le> Units r \<Longrightarrow>
   sum_list (map Units (remove_empty_orders rows)) = sum_list (map Units rows)"
  by (induction rows) (auto simp: remove_empty_orders_def)

lemma update_balance_conserves:
  assumes "\<forall>r\<in>set rows. Asset r = a"
      and "sorted (map Units rows)"
      and "T \<le> sum_list (map Units rows)"
      and "rows \<noteq> [] \<or> T = 0"
  shows "\<exists>upd. update_balance rows T a = Some (upd, T)
           \<and> sum_list (map Units rows) - sum_list (map Units upd) = T"
proof (cases rows)
  case Nil
  with assms(4) show ?thesis
    by (simp add: update_balance_def remove_empty_orders_def)
next
  case (Cons r rs)
  then have ne: "rows \<noteq> []" by simp
  let ?n = "length rows"
  have f: "filter (\<lambda>r. Asset r = a) rows = rows"
    using assms(1) by (simp add: filter_id_conv)
  have n: "0 < ?n" using ne by simp
  have nv: "of_nat ?n * (T / of_nat ?n) = T" using n by simp
  have "of_nat ?n * (T / of_nat ?n) \<le> sum_list (map Units rows)"
    using assms(3) nv by simp
  from update_balance_loop_conserves[OF assms(1,2) ne _ this, of 1 ?n 0]
  obtain rows' where
    l: "update_balance_loop a ?n 1 (Some (T / of_nat ?n)) 0 rows = Some (rows', T)"
    and s: "sum_list (map Units rows) - sum_list (map Units rows') = T"
    and p: "\<forall>r\<in>set rows'. 0 \<le> Units r"
    using nv by auto
  show ?thesis
    using l s n sum_list_remove_empty_orders[OF p]
    by (simp add: update_balance_def f Let_def)
qed

lemma tax_calculator_XYFO_loop_conserves:
  assumes "uts \<le> sum_list (map Units rows)"
      and "rows \<noteq> [] \<or> 0 \<le> uts"
  shows "\<exists>rows' g. tax_calculator_XYFO_loop sp uts tot cg rows = (rows', tot + uts, g)
           \<and> sum_list (map Units rows) - sum_list (map Units rows') = uts
           \<and> ((\<forall>r\<in>set rows. 0 \<le> Units r) \<longrightarrow> (\<forall>r\<in>set rows'. 0 \<le> Units r))"
  using assms
proof (induction rows arbitrary: uts tot cg)
  case Nil
  then show ?case by simp
next
  case (Cons r rs)
  show ?case
  proof (cases "Units r \<le> uts")
    case True
    have "uts - Units r \<le> sum_list (map Units rs)" using Cons.prems(1) by simp
    moreover have "rs \<noteq> [] \<or> 0 \<le> uts - Units r" using True by simp
    ultimately obtain rows' g where
      l: "tax_calculator_XYFO_loop sp (uts - Units r) (tot + Units r)
            (cg + Units r * (sp - Unit_Price r)) rs = (rows', tot + Units r + (uts - Units r), g)"
      and s: "sum_list (map Units rs) - sum_list (map Units rows') = uts - Units r"
      and p: "(\<forall>r\<in>set rs. 0 \<le> Units r) \<longrightarrow> (\<forall>r\<in>set rows'. 0 \<le> Units r)"
      using Cons.IH[of "uts - Units r" "tot + Units r" "cg + Units r * (sp - Unit_Price r)"]
      by blast
    show ?thesis using True l s p by (simp add: Let_def)
  next
    case False
    then show ?thesis by (simp add: Let_def)
  qed
qed

lemma tax_calculator_XYFO_conserves:
  assumes "T \<le> sum_list (map Units rows)"
      and "rows \<noteq> [] \<or> 0 \<le> T"
  shows "\<exists>g t upd. tax_calculator_XYFO cfg T sp rows = (g, t, upd, T)
           \<and> sum_list (map Units rows) - sum_list (map Units upd) = T
           \<and> ((\<forall>r\<in>set rows. 0 \<le> Units r) \<longrightarrow> (\<forall>r\<in>set upd. 0 \<le> Units r))"
  using tax_calculator_XYFO_loop_conserves[OF assms, of sp 0 0]
  by (auto simp: tax_calculator_XYFO_def Let_def)


lemma update_balance_loop_keeps:
  "update_balance_loop a n k avg tot rows = Some (rows', t) \<Longrightarrow>
   \<forall>r\<in>set rows. P (Asset r) (Date r) \<Longrightarrow> \<forall>r\<in>set rows'. P (Asset r) (Date r)"
proof (induction rows arbitrary: k avg tot rows' t)
  case Nil
  then show ?case by simp
next
  case (Cons r rs)
  then show ?case
    by (fastforce split: option.splits if_splits prod.splits)
qed

lemma update_balance_keeps:
  "update_balance rows T a = Some (upd, t) \<Longrightarrow>
   \<forall>r\<in>set rows. P (Asset r) (Date r) \<Longrightarrow> \<forall>r\<in>set upd. P (Asset r) (Date r)"
  using update_balance_loop_keeps[where P = P]
  by (fastforce simp: update_balance_def remove_empty_orders_def Let_def split: option.splits)

lemma tax_calculator_XYFO_loop_keeps:
  "tax_calculator_XYFO_loop sp uts tot cg rows = (rows', t, g) \<Longrightarrow>
   \<forall>r\<in>set rows. P (Asset r) (Date r) \<Longrightarrow> \<forall>r\<in>set rows'. P (Asset r) (Date r)"
proof (induction rows arbitrary: uts tot cg rows' t g)
  case Nil
  then show ?case by simp
next
  case (Cons r rs)
  then show ?case
    by (fastforce simp: Let_def split: if_splits prod.splits)
qed

lemma tax_calculator_XYFO_keeps:
  "tax_calculator_XYFO cfg T sp rows = (g, t, upd, tot) \<Longrightarrow>
   \<forall>r\<in>set rows. P (Asset r) (Date r) \<Longrightarrow> \<forall>r\<in>set upd. P (Asset r) (Date r)"
  using tax_calculator_XYFO_loop_keeps[where P = P]
  by (fastforce simp: tax_calculator_XYFO_def Let_def split: prod.splits)

lemma mset_select_rebuild_balance:
  assumes "\<forall>r\<in>set upd. Asset r = a \<and> Date r < d"
  shows "mset (select_balance_asset (rebuild_balance L upd a d) a d) = mset upd"
proof -
  have "filter (\<lambda>r. Asset r = a \<and> Date r < d) upd = upd"
    using assms by (simp add: filter_id_conv)
  then have "filter_mset (\<lambda>r. Asset r = a \<and> Date r < d) (mset upd) = mset upd"
    by (metis mset_filter)
  then show ?thesis
    by (auto simp: select_balance_asset_def rebuild_balance_def sort_values_def Let_def)
qed

lemma sell_event_XYFO_InrD:
  assumes "METHOD cfg \<noteq> ''ACB''" and "sell_event cfg txs st d = Inr st'"
  shows "\<exists>sell rest.
      filter (\<lambda>r. Type r = ''Sell'' \<and> Date r = d) txs = sell # rest
    \<and> Units sell \<le> sum_list (map Units (select_balance_asset (df_balance st) (Asset sell) d))
    \<and> df_balance st' = rebuild_balance (df_balance st)
         (remove_empty_orders
            (fst (snd (snd (tax_calculator_XYFO cfg (Units sell) (Unit_Price sell)
               (if METHOD cfg = ''FIFO''
                then sort_values Date (select_balance_asset (df_balance st) (Asset sell) d)
                else if METHOD cfg = ''LIFO''
                then sort_values_descending Date
                       (select_balance_asset (df_balance st) (Asset sell) d)
                else sort_values_descending Unit_Price
                       (select_balance_asset (df_balance st) (Asset sell) d)))))))
         (Asset sell) d"
  using assms unfolding sell_event_def
  by (auto simp: Let_def
      split: list.splits option.splits if_splits prod.splits dest!: store_sale_InrD)

lemma sale_removes_requested_units:
  assumes "sell_event cfg txs st d = Inr st'"
      and "filter (\<lambda>r. Type r = ''Sell'' \<and> Date r = d) txs = sell # rest"
      and "0 \<le> Units sell"
      and "\<forall>r\<in>set (df_balance st). 0 \<le> Units r"
  shows "sum_list (map Units (select_balance_asset (df_balance st) (Asset sell) d))
         - sum_list (map Units (select_balance_asset (df_balance st') (Asset sell) d))
         = Units sell"
proof -
  let ?a = "Asset sell"
  let ?sel = "select_balance_asset (df_balance st) ?a d"
  have sel: "\<forall>r\<in>set ?sel. Asset r = ?a \<and> Date r < d"
    by (simp add: select_balance_asset_def)
  have nonneg: "\<forall>r\<in>set ?sel. 0 \<le> Units r"
    using assms(4) by (simp add: select_balance_asset_def)
  have "\<exists>upd. df_balance st' = rebuild_balance (df_balance st) upd ?a d
          \<and> (\<forall>r\<in>set upd. Asset r = ?a \<and> Date r < d)
          \<and> sum_list (map Units ?sel) - sum_list (map Units upd) = Units sell"
  proof (cases "METHOD cfg = ''ACB''")
    case True
    from sell_event_ACB_InrD[OF True assms(1)] assms(2) obtain p upd tot where
      le: "Units sell \<le> sum_list (map Units ?sel)"
      and u: "update_balance (sort_values Units ?sel) (Units sell) ?a = Some (upd, tot)"
      and s: "df_balance st' = rebuild_balance (df_balance st) upd ?a d"
      and w: "weighted_average_price (sort_values Units ?sel) = Some p"
      by auto
    let ?rows = "sort_values Units ?sel"
    have m: "mset ?rows = mset ?sel" by (simp add: sort_values_def)
    have sum: "sum_list (map Units ?rows) = sum_list (map Units ?sel)"
      by (rule sum_list_map_mset[OF m])
    have all: "\<forall>r\<in>set ?rows. Asset r = ?a \<and> Date r < d"
      using sel by (simp add: sort_values_def)
    have ne: "?rows \<noteq> [] \<or> Units sell = 0"
      using w by (auto simp: weighted_average_price_def)
    have "\<forall>r\<in>set ?rows. Asset r = ?a" using all by simp
    moreover have "sorted (map Units ?rows)" by (simp add: sort_values_def)
    moreover have "Units sell \<le> sum_list (map Units ?rows)" using le sum by simp
    ultimately obtain upd' where
      "update_balance ?rows (Units sell) ?a = Some (upd', Units sell)"
      "sum_list (map Units ?rows) - sum_list (map Units upd') = Units sell"
      using update_balance_conserves[of ?rows ?a "Units sell"] ne by blast
    with u sum have "sum_list (map Units ?sel) - sum_list (map Units upd) = Units sell"
      by simp
    moreover have "\<forall>r\<in>set upd. Asset r = ?a \<and> Date r < d"
      using update_balance_keeps[OF u, where P = "\<lambda>x y. x = ?a \<and> y < d"] all by simp
    ultimately show ?thesis using s by blast
  next
    case False
    define sorted where "sorted =
               (if METHOD cfg = ''FIFO'' then sort_values Date ?sel
                else if METHOD cfg = ''LIFO'' then sort_values_descending Date ?sel
                else sort_values_descending Unit_Price ?sel)"
    from sell_event_XYFO_InrD[OF False assms(1)] assms(2) have
      le: "Units sell \<le> sum_list (map Units ?sel)"
      and s: "df_balance st' = rebuild_balance (df_balance st)
         (remove_empty_orders
            (fst (snd (snd (tax_calculator_XYFO cfg (Units sell) (Unit_Price sell) sorted)))))
         ?a d"
      by (auto simp: sorted_def)
    have m: "mset sorted = mset ?sel"
      by (simp add: sorted_def sort_values_def sort_values_descending_def)
    have sum: "sum_list (map Units sorted) = sum_list (map Units ?sel)"
      by (rule sum_list_map_mset[OF m])
    have set_eq: "set sorted = set ?sel" using m by (rule mset_eq_setD)
    have all: "\<forall>r\<in>set sorted. Asset r = ?a \<and> Date r < d" using sel set_eq by simp
    have nn: "\<forall>r\<in>set sorted. 0 \<le> Units r" using nonneg set_eq by simp
    have "Units sell \<le> sum_list (map Units sorted)" using le sum by simp
    moreover have "sorted \<noteq> [] \<or> 0 \<le> Units sell" using assms(3) by simp
    ultimately obtain g t upd where
      x: "tax_calculator_XYFO cfg (Units sell) (Unit_Price sell) sorted = (g, t, upd, Units sell)"
      and c: "sum_list (map Units sorted) - sum_list (map Units upd) = Units sell"
      and p: "(\<forall>r\<in>set sorted. 0 \<le> Units r) \<longrightarrow> (\<forall>r\<in>set upd. 0 \<le> Units r)"
      using tax_calculator_XYFO_conserves[of "Units sell" sorted cfg "Unit_Price sell"] by blast
    have keep: "\<forall>r\<in>set upd. Asset r = ?a \<and> Date r < d"
      using tax_calculator_XYFO_keeps[OF x, where P = "\<lambda>x y. x = ?a \<and> y < d"] all by simp
    have "\<forall>r\<in>set upd. 0 \<le> Units r" using p nn by simp
    then have "sum_list (map Units (remove_empty_orders upd)) = sum_list (map Units upd)"
      by (rule sum_list_remove_empty_orders)
    with c sum have "sum_list (map Units ?sel) - sum_list (map Units (remove_empty_orders upd))
                      = Units sell" by simp
    moreover have "\<forall>r\<in>set (remove_empty_orders upd). Asset r = ?a \<and> Date r < d"
      using keep by (simp add: remove_empty_orders_def)
    ultimately show ?thesis using s x by auto
  qed
  then obtain upd where
    s: "df_balance st' = rebuild_balance (df_balance st) upd ?a d"
    and k: "\<forall>r\<in>set upd. Asset r = ?a \<and> Date r < d"
    and c: "sum_list (map Units ?sel) - sum_list (map Units upd) = Units sell"
    by blast
  have "sum_list (map Units (select_balance_asset (df_balance st') ?a d))
          = sum_list (map Units upd)"
    unfolding s by (rule sum_list_map_mset[OF mset_select_rebuild_balance[OF k]])
  with c show ?thesis by simp
qed

text \<open>A sale keeps the rows of the other assets dated before it and all rows dated
  after it.\<close>

lemma sell_event_keeps_other_rows:
  assumes "sell_event cfg txs st d = Inr st'"
      and "filter (\<lambda>r. Type r = ''Sell'' \<and> Date r = d) txs = sell # rest"
      and "r \<in> set (df_balance st)"
      and "(Asset r \<noteq> Asset sell \<and> Date r < d) \<or> d < Date r"
  shows "r \<in> set (df_balance st')"
  using sell_event_InrD[OF assms(1)] assms(2-4)
  by (auto simp: set_rebuild_balance)

subsection \<open>Rounding to two decimals\<close>



subsection \<open>The swap does not read the method\<close>

lemma swap_event_ignores_method:
  "swap_event (cfg\<lparr>METHOD := m\<rparr>) txs st d = swap_event cfg txs st d"
  by (simp add: swap_event_def)

subsection \<open>The entries of the sales of a run\<close>

lemma sale_entries_have_floor:
  assumes "calculate_taxes cfg rows = Inr st" and "e \<in> set (sales_taxes st)"
  shows "Taxes e = max 0 (Capital_Gain e) * TAX_RATE cfg
         \<and> Net_Profit e = Capital_Gain e - Taxes e"
proof -
  from assms(1) have
    "process_changes cfg (map (load_transaction cfg) rows)
       (initial_state (map (load_transaction cfg) rows))
       (change_events (map (load_transaction cfg) rows)) = Inr st"
    by (auto simp: calculate_taxes_def Let_def split: list.splits if_splits)
  then have "\<forall>e\<in>set (sales_taxes st). tax_entry_ok cfg e"
    by (rule process_changes_entries) (simp add: initial_state_def)
  with assms(2) show ?thesis by (simp add: tax_entry_ok_def)
qed

subsection \<open>Units above zero\<close>

text \<open>
  After a sale or a swap the rows of the disposed asset dated before the event have
  units above zero; every other row is a row the ledger held before, or the row the
  swap inserted.
\<close>

lemma sell_event_rows:
  assumes "sell_event cfg txs st d = Inr st'"
  shows "\<exists>sell rest upd.
       filter (\<lambda>r. Type r = ''Sell'' \<and> Date r = d) txs = sell # rest
     \<and> df_balance st' = rebuild_balance (df_balance st) upd (Asset sell) d
     \<and> (\<forall>r\<in>set upd. 0 < Units r \<and> Asset r = Asset sell \<and> Date r < d)"
proof (cases "METHOD cfg = ''ACB''")
  case True
  from sell_event_ACB_InrD[OF True assms] obtain sell rest p upd tot where
    f: "filter (\<lambda>r. Type r = ''Sell'' \<and> Date r = d) txs = sell # rest"
    and u: "update_balance
              (sort_values Units (select_balance_asset (df_balance st) (Asset sell) d))
              (Units sell) (Asset sell) = Some (upd, tot)"
    and s: "st' = st\<lparr>average_purchase_price := Some p,
               sales_taxes := sales_taxes st @
                 [\<lparr>Capital_Gain = fst (tax_calculator_ACB cfg (Units sell) (Unit_Price sell) p),
                   Taxes = snd (tax_calculator_ACB cfg (Units sell) (Unit_Price sell) p),
                   Net_Profit = fst (tax_calculator_ACB cfg (Units sell) (Unit_Price sell) p)
                              - snd (tax_calculator_ACB cfg (Units sell) (Unit_Price sell) p),
                   Average_Unit_Price = round_2 (tie_rounds_up cfg d) p\<rparr>],
               df_balance := rebuild_balance (df_balance st) upd (Asset sell) d\<rparr>"
    by blast
  have "\<forall>r\<in>set upd. Asset r = Asset sell \<and> Date r < d"
    using update_balance_keeps[OF u, where P = "\<lambda>x y. x = Asset sell \<and> y < d"]
    by (simp add: sort_values_def select_balance_asset_def)
  moreover have "\<forall>r\<in>set upd. 0 < Units r"
    using update_balance_positive[OF u] by blast
  moreover have "df_balance st' = rebuild_balance (df_balance st) upd (Asset sell) d"
    by (simp add: s)
  ultimately show ?thesis using f by blast
next
  case False
  from sell_event_XYFO_InrD[OF False assms] obtain sell rest where
    f: "filter (\<lambda>r. Type r = ''Sell'' \<and> Date r = d) txs = sell # rest"
    and s: "df_balance st' = rebuild_balance (df_balance st)
         (remove_empty_orders
            (fst (snd (snd (tax_calculator_XYFO cfg (Units sell) (Unit_Price sell)
               (if METHOD cfg = ''FIFO''
                then sort_values Date (select_balance_asset (df_balance st) (Asset sell) d)
                else if METHOD cfg = ''LIFO''
                then sort_values_descending Date
                       (select_balance_asset (df_balance st) (Asset sell) d)
                else sort_values_descending Unit_Price
                       (select_balance_asset (df_balance st) (Asset sell) d)))))))
         (Asset sell) d"
    by blast
  define sorted where "sorted =
               (if METHOD cfg = ''FIFO''
                then sort_values Date (select_balance_asset (df_balance st) (Asset sell) d)
                else if METHOD cfg = ''LIFO''
                then sort_values_descending Date
                       (select_balance_asset (df_balance st) (Asset sell) d)
                else sort_values_descending Unit_Price
                       (select_balance_asset (df_balance st) (Asset sell) d))"
  obtain g t upd tot where
    x: "tax_calculator_XYFO cfg (Units sell) (Unit_Price sell) sorted = (g, t, upd, tot)"
    by (metis prod_cases4)
  have all: "\<forall>r\<in>set sorted. Asset r = Asset sell \<and> Date r < d"
    by (simp add: sorted_def sort_values_def sort_values_descending_def
        select_balance_asset_def)
  have "\<forall>r\<in>set upd. Asset r = Asset sell \<and> Date r < d"
    using tax_calculator_XYFO_keeps[OF x, where P = "\<lambda>x y. x = Asset sell \<and> y < d"] all
    by simp
  then have "\<forall>r\<in>set (remove_empty_orders upd).
               0 < Units r \<and> Asset r = Asset sell \<and> Date r < d"
    by (simp add: remove_empty_orders_def)
  moreover have "df_balance st' = rebuild_balance (df_balance st)
                   (remove_empty_orders upd) (Asset sell) d"
    using s x by (simp add: sorted_def)
  ultimately show ?thesis using f by blast
qed

lemma swap_event_rows:
  assumes "swap_event cfg txs st d = Inr st'"
  shows "\<exists>out inn rest upd price.
       filter (\<lambda>r. Type r = ''Swap'' \<and> Date r = d) txs = out # inn # rest
     \<and> df_balance st' = rebuild_balance (df_balance st)
          (upd @ [inn\<lparr>Unit_Price := price, Currency := ''EUR''\<rparr>]) (Asset out) d
     \<and> (\<forall>r\<in>set upd. 0 < Units r \<and> Asset r = Asset out \<and> Date r < d)"
proof -
  from swap_event_InrD[OF assms] obtain out inn rest pooled upd tot where
    f: "filter (\<lambda>r. Type r = ''Swap'' \<and> Date r = d) txs = out # inn # rest"
    and u: "update_balance (select_balance_asset (df_balance st) (Asset out) d) (Units out)
              (Asset out) = Some (upd, tot)"
    and s: "st' = st\<lparr>df_balance := rebuild_balance (df_balance st)
                 (upd @ [inn\<lparr>Unit_Price := pooled * Units out / Units inn,
                              Currency := ''EUR''\<rparr>]) (Asset out) d,
               average_purchase_price := Some (pooled * Units out / Units inn)\<rparr>"
    by blast
  have "\<forall>r\<in>set upd. Asset r = Asset out \<and> Date r < d"
    using update_balance_keeps[OF u, where P = "\<lambda>x y. x = Asset out \<and> y < d"]
    by (simp add: select_balance_asset_def)
  moreover have "\<forall>r\<in>set upd. 0 < Units r"
    using update_balance_positive[OF u] by blast
  moreover have "df_balance st' = rebuild_balance (df_balance st)
          (upd @ [inn\<lparr>Unit_Price := pooled * Units out / Units inn, Currency := ''EUR''\<rparr>])
          (Asset out) d"
    by (simp add: s)
  ultimately show ?thesis using f by blast
qed

lemma process_change_units_positive:
  assumes "process_change cfg txs st change = Inr st'"
      and "\<forall>r\<in>set (df_balance st). 0 < Units r"
      and "\<forall>r\<in>set txs. Type r = ''Swap'' \<longrightarrow> 0 < Units r"
  shows "\<forall>r\<in>set (df_balance st'). 0 < Units r"
proof (cases "snd change = ''Swap''")
  case True
  with assms(1) have "swap_event cfg txs st (fst change) = Inr st'"
    by (simp add: process_change_def)
  from swap_event_rows[OF this] obtain out inn rest upd price where
    f: "filter (\<lambda>r. Type r = ''Swap'' \<and> Date r = fst change) txs = out # inn # rest"
    and s: "df_balance st' = rebuild_balance (df_balance st)
              (upd @ [inn\<lparr>Unit_Price := price, Currency := ''EUR''\<rparr>]) (Asset out)
              (fst change)"
    and u: "\<forall>r\<in>set upd. 0 < Units r \<and> Asset r = Asset out \<and> Date r < fst change"
    by blast
  from f have "inn \<in> set (filter (\<lambda>r. Type r = ''Swap'' \<and> Date r = fst change) txs)"
    by simp
  then have "0 < Units inn" using assms(3) by auto
  then show ?thesis using s u assms(2)
    by (auto simp: set_rebuild_balance)
next
  case False
  show ?thesis
  proof (cases "snd change = ''Sell''")
    case True
    with False assms(1) have "sell_event cfg txs st (fst change) = Inr st'"
      by (simp add: process_change_def)
    from sell_event_rows[OF this] show ?thesis using assms(2)
      by (auto simp: set_rebuild_balance)
  next
    case False
    with \<open>snd change \<noteq> ''Swap''\<close> assms(1) have "st' = st"
      by (simp add: process_change_def)
    then show ?thesis using assms(2) by simp
  qed
qed

lemma process_changes_units_positive:
  "process_changes cfg txs st changes = Inr st' \<Longrightarrow>
   \<forall>r\<in>set (df_balance st). 0 < Units r \<Longrightarrow>
   \<forall>r\<in>set txs. Type r = ''Swap'' \<longrightarrow> 0 < Units r \<Longrightarrow>
   \<forall>r\<in>set (df_balance st'). 0 < Units r"
proof (induction changes arbitrary: st)
  case Nil
  then show ?case by simp
next
  case (Cons change changes)
  from Cons.prems(1) obtain st1 where
    one: "process_change cfg txs st change = Inr st1"
    and more: "process_changes cfg txs st1 changes = Inr st'"
    by (auto split: sum.splits)
  from process_change_units_positive[OF one Cons.prems(2,3)]
  have "\<forall>r\<in>set (df_balance st1). 0 < Units r" .
  from Cons.IH[OF more this Cons.prems(3)] show ?case .
qed

lemma Units_load_transaction: "Units (load_transaction cfg r) = Units r"
  by (simp add: load_transaction_def Let_def)

section \<open>The claims\<close>

text \<open>
  C1. Claim: for every disposal whose requested units do not exceed the units of the
  eligible lots, the depletion removes exactly the requested units. A swap hands the
  eligible lots to \<open>update_balance\<close> in ledger order, without the sort by units that the
  sale under ACB does first. With lots of 10 and of 1 unit and a swap of 4 units out, the
  pass takes 2 units from the first lot and the single unit of the second: 3 units
  leave the ledger, not 4. Every sale does remove the units asked for
  (\<open>sale_removes_requested_units\<close>).
\<close>

theorem swap_depletion_loses_units:
  "sum_list (map Units
      (select_balance_asset [purchase 1 ''A'' 10 1, purchase 2 ''A'' 1 1] ''A'' 3)) = 11
   \<and> update_balance
       (select_balance_asset [purchase 1 ''A'' 10 1, purchase 2 ''A'' 1 1] ''A'' 3) 4 ''A''
     = Some ([purchase 1 ''A'' 8 1], 3)
   \<and> swap_event default_config
        [transaction 3 ''Swap'' ''A'' 4 0, transaction 3 ''Swap'' ''B'' 2 0]
        (ledger_state [purchase 1 ''A'' 10 1, purchase 2 ''A'' 1 1]) 3
     = Inr \<lparr>df_balance = [purchase 1 ''A'' 8 1, transaction 3 ''Swap'' ''B'' 2 2],
            sales_taxes = [], average_purchase_price = Some 2\<rparr>"
  by code_simp

text \<open>
  C2. Claim: a sale or a swap that asks for more units than the eligible lots hold
  raises the insufficient-balance error and leaves the ledger as it was. The sale does
  (\<open>sell_event_too_many_units\<close>); the swap branch has no such check. With one lot of 3
  units and a swap of 5 units out, the eligible lots hold 3 units, the swap goes
  through, the lot is gone and the lot of the other asset is in the ledger.
\<close>

theorem swap_beyond_holdings_goes_through:
  "sum_list (map Units (select_balance_asset [purchase 1 ''A'' 3 1] ''A'' 3)) = 3
   \<and> swap_event default_config
        [transaction 3 ''Swap'' ''A'' 5 0, transaction 3 ''Swap'' ''B'' 2 0]
        (ledger_state [purchase 1 ''A'' 3 1]) 3
     = Inr \<lparr>df_balance = [transaction 3 ''Swap'' ''B'' 2 (5 / 2)],
            sales_taxes = [], average_purchase_price = Some (5 / 2)\<rparr>"
  by code_simp

text \<open>
  C3. Claim: the tax entry of a mining receipt has the capital gain
  \<open>unit_price * units\<close>. The entry takes the unit price alone
  (\<open>mining_tax_entry\<close>): for 2 units mined at 100 the gain recorded is 100, not 200.
\<close>

theorem mining_gain_is_the_unit_price:
  "mining_taxes default_config
     (map (load_transaction default_config) [transaction 1 ''Mining'' ''A'' 2 100])
   = [\<lparr>Capital_Gain = 100, Taxes = 55 / 2, Net_Profit = 145 / 2,
       Average_Unit_Price = 100\<rparr>]"
  by code_simp

text \<open>
  C4. Claim: a swap depletes the lots of the asset given away by the configured method
  and inserts one lot of the asset received at the derived price and the swap date. The
  lot is inserted as claimed, but the swap branch calls \<open>update_balance\<close> and never
  reads the method (\<open>swap_event_ignores_method\<close>), where the sell branch sorts and
  depletes by it. Under FIFO, with two lots of 10 units and a swap of 10 units out, the
  ledger after the swap holds 5 units in each lot, where the FIFO pass of a sale
  empties the older lot and leaves the newer one whole.
\<close>

theorem swap_under_fifo_depletes_proportionally:
  "swap_event fifo_config
     [transaction 3 ''Swap'' ''A'' 10 0, transaction 3 ''Swap'' ''B'' 5 0]
     (ledger_state [purchase 1 ''A'' 10 1, purchase 2 ''A'' 10 2]) 3
   = Inr \<lparr>df_balance = [purchase 1 ''A'' 5 1, purchase 2 ''A'' 5 2,
                         transaction 3 ''Swap'' ''B'' 5 3],
          sales_taxes = [], average_purchase_price = Some 3\<rparr>
   \<and> remove_empty_orders
       (fst (snd (snd
          (tax_calculator_XYFO fifo_config 10 3
             (sort_values Date
                (select_balance_asset [purchase 1 ''A'' 10 1, purchase 2 ''A'' 10 2]
                   ''A'' 3))))))
     = [purchase 2 ''A'' 10 2]
   \<and> calculate_taxes fifo_config
       [purchase 1 ''A'' 10 1, purchase 2 ''A'' 10 2,
        transaction 3 ''Swap'' ''A'' 10 0, transaction 3 ''Swap'' ''B'' 5 0]
     = Inr \<lparr>df_balance = [purchase 1 ''A'' 5 1, purchase 2 ''A'' 5 2,
                           transaction 3 ''Swap'' ''B'' 5 3],
            sales_taxes = [], average_purchase_price = Some 3\<rparr>"
  by code_simp




text \<open>
  C6. Claim: every tax entry has \<open>Taxes = max 0 Capital_Gain * TAX_RATE\<close> and
  \<open>Net_Profit = Capital_Gain - Taxes\<close>. The entries of the sales do, under every method
  (\<open>sale_entries_have_floor\<close>): both tax calculators charge the rate on a positive
  gain only. The loop over the mining rows charges the rate on whatever the gain is
  (\<open>mining_tax_entry\<close>). For a file with a purchase, a mining row at the price -1 and a
  sale, the run goes through and the mining entry has the gain -1 and the tax -11/40,
  where the floor gives 0.
\<close>

theorem mining_tax_has_no_floor:
  "mining_taxes default_config
     (map (load_transaction default_config)
        [purchase 1 ''A'' 2 1, transaction 2 ''Mining'' ''A'' 1 (- 1),
         transaction 3 ''Sell'' ''A'' 1 2])
   = [\<lparr>Capital_Gain = - 1, Taxes = - (11 / 40), Net_Profit = - (29 / 40),
       Average_Unit_Price = - 1\<rparr>]
   \<and> max 0 (- 1) * TAX_RATE default_config = 0
   \<and> calculate_taxes default_config
        [purchase 1 ''A'' 2 1, transaction 2 ''Mining'' ''A'' 1 (- 1),
         transaction 3 ''Sell'' ''A'' 1 2]
     = Inr \<lparr>df_balance =
              [purchase 1 ''A'' (3 / 2) 1,
               (transaction 2 ''Purchase'' ''A'' (1 / 2) (- 1))\<lparr>Type_Orig := ''Mining''\<rparr>],
            sales_taxes = [\<lparr>Capital_Gain = 5 / 3, Taxes = 11 / 24, Net_Profit = 29 / 24,
                            Average_Unit_Price = 33 / 100\<rparr>],
            average_purchase_price = Some (1 / 3)\<rparr>"
  by code_simp

text \<open>
  C7. The lots a sale or a swap depletes are the ledger rows of the disposed asset
  dated strictly before the event, and no others. A sale that goes through has checked
  the units asked for against the units of those rows, has run the pass of the
  configured method on those rows, sorted for the method, and has put the rows the
  pass returns, all dated before the sale, in the place of those rows. A sale that asks
  for more than those rows hold is refused, whatever the rows dated at the sale or
  after it hold. A swap that goes through has priced and depleted those rows of the
  asset given away. So a lot acquired at the time of the disposal funds no part of it.
\<close>

theorem disposals_deplete_lots_strictly_before:
  "(sell_event cfg txs st d = Inr st' \<longrightarrow>
      (\<exists>sell rest upd.
          filter (\<lambda>r. Type r = ''Sell'' \<and> Date r = d) txs = sell # rest
        \<and> Units sell
            \<le> sum_list (map Units
                 (filter (\<lambda>r. Asset r = Asset sell \<and> Date r < d) (df_balance st)))
        \<and> (METHOD cfg = ''ACB'' \<longrightarrow>
             (\<exists>tot. update_balance
                      (sort_values Units
                         (filter (\<lambda>r. Asset r = Asset sell \<and> Date r < d) (df_balance st)))
                      (Units sell) (Asset sell) = Some (upd, tot)))
        \<and> (METHOD cfg \<noteq> ''ACB'' \<longrightarrow>
             upd = remove_empty_orders
                     (fst (snd (snd (tax_calculator_XYFO cfg (Units sell) (Unit_Price sell)
                        (if METHOD cfg = ''FIFO''
                         then sort_values Date
                                (filter (\<lambda>r. Asset r = Asset sell \<and> Date r < d)
                                   (df_balance st))
                         else if METHOD cfg = ''LIFO''
                         then sort_values_descending Date
                                (filter (\<lambda>r. Asset r = Asset sell \<and> Date r < d)
                                   (df_balance st))
                         else sort_values_descending Unit_Price
                                (filter (\<lambda>r. Asset r = Asset sell \<and> Date r < d)
                                   (df_balance st))))))))
        \<and> (\<forall>r\<in>set upd. Asset r = Asset sell \<and> Date r < d)
        \<and> df_balance st' = rebuild_balance (df_balance st) upd (Asset sell) d))
   \<and> (filter (\<lambda>r. Type r = ''Sell'' \<and> Date r = db) txsb = sellb # restb
      \<and> sum_list (map Units
           (filter (\<lambda>r. Asset r = Asset sellb \<and> Date r < db) (df_balance stb)))
         < Units sellb
      \<longrightarrow> sell_event cfgb txsb stb db = Inl TooManyUnits)
   \<and> (swap_event cfgc txsc stc dc = Inr stc' \<longrightarrow>
      (\<exists>out inn rest upd tot pooled.
          filter (\<lambda>r. Type r = ''Swap'' \<and> Date r = dc) txsc = out # inn # rest
        \<and> weighted_average_price
            (filter (\<lambda>r. Asset r = Asset out \<and> Date r < dc) (df_balance stc))
            = Some pooled
        \<and> update_balance
            (filter (\<lambda>r. Asset r = Asset out \<and> Date r < dc) (df_balance stc))
            (Units out) (Asset out) = Some (upd, tot)
        \<and> (\<forall>r\<in>set upd. Asset r = Asset out \<and> Date r < dc)
        \<and> df_balance stc' = rebuild_balance (df_balance stc)
             (upd @ [inn\<lparr>Unit_Price := pooled * Units out / Units inn,
                          Currency := ''EUR''\<rparr>])
             (Asset out) dc))"
proof (intro conjI impI)
  assume ok: "sell_event cfg txs st d = Inr st'"
  show "\<exists>sell rest upd.
          filter (\<lambda>r. Type r = ''Sell'' \<and> Date r = d) txs = sell # rest
        \<and> Units sell
            \<le> sum_list (map Units
                 (filter (\<lambda>r. Asset r = Asset sell \<and> Date r < d) (df_balance st)))
        \<and> (METHOD cfg = ''ACB'' \<longrightarrow>
             (\<exists>tot. update_balance
                      (sort_values Units
                         (filter (\<lambda>r. Asset r = Asset sell \<and> Date r < d) (df_balance st)))
                      (Units sell) (Asset sell) = Some (upd, tot)))
        \<and> (METHOD cfg \<noteq> ''ACB'' \<longrightarrow>
             upd = remove_empty_orders
                     (fst (snd (snd (tax_calculator_XYFO cfg (Units sell) (Unit_Price sell)
                        (if METHOD cfg = ''FIFO''
                         then sort_values Date
                                (filter (\<lambda>r. Asset r = Asset sell \<and> Date r < d)
                                   (df_balance st))
                         else if METHOD cfg = ''LIFO''
                         then sort_values_descending Date
                                (filter (\<lambda>r. Asset r = Asset sell \<and> Date r < d)
                                   (df_balance st))
                         else sort_values_descending Unit_Price
                                (filter (\<lambda>r. Asset r = Asset sell \<and> Date r < d)
                                   (df_balance st))))))))
        \<and> (\<forall>r\<in>set upd. Asset r = Asset sell \<and> Date r < d)
        \<and> df_balance st' = rebuild_balance (df_balance st) upd (Asset sell) d"
  proof (cases "METHOD cfg = ''ACB''")
    case True
    from sell_event_ACB_InrD[OF True ok] obtain sell rest p upd tot where
      f: "filter (\<lambda>r. Type r = ''Sell'' \<and> Date r = d) txs = sell # rest"
      and le: "Units sell
                 \<le> sum_list (map Units (select_balance_asset (df_balance st) (Asset sell) d))"
      and u: "update_balance
                (sort_values Units (select_balance_asset (df_balance st) (Asset sell) d))
                (Units sell) (Asset sell) = Some (upd, tot)"
      and s: "st' = st\<lparr>average_purchase_price := Some p,
               sales_taxes := sales_taxes st @
                 [\<lparr>Capital_Gain = fst (tax_calculator_ACB cfg (Units sell) (Unit_Price sell) p),
                   Taxes = snd (tax_calculator_ACB cfg (Units sell) (Unit_Price sell) p),
                   Net_Profit = fst (tax_calculator_ACB cfg (Units sell) (Unit_Price sell) p)
                              - snd (tax_calculator_ACB cfg (Units sell) (Unit_Price sell) p),
                   Average_Unit_Price = round_2 (tie_rounds_up cfg d) p\<rparr>],
               df_balance := rebuild_balance (df_balance st) upd (Asset sell) d\<rparr>"
      by blast
    have k: "\<forall>r\<in>set upd. Asset r = Asset sell \<and> Date r < d"
      using update_balance_keeps[OF u, where P = "\<lambda>x y. x = Asset sell \<and> y < d"]
      by (simp add: sort_values_def select_balance_asset_def)
    have b: "df_balance st' = rebuild_balance (df_balance st) upd (Asset sell) d"
      by (simp add: s)
    show ?thesis
      using True f le u k b unfolding select_balance_asset_def by blast
  next
    case False
    from sell_event_XYFO_InrD[OF False ok] obtain sell rest where
      f: "filter (\<lambda>r. Type r = ''Sell'' \<and> Date r = d) txs = sell # rest"
      and le: "Units sell
                 \<le> sum_list (map Units (select_balance_asset (df_balance st) (Asset sell) d))"
      and s: "df_balance st' = rebuild_balance (df_balance st)
         (remove_empty_orders
            (fst (snd (snd (tax_calculator_XYFO cfg (Units sell) (Unit_Price sell)
               (if METHOD cfg = ''FIFO''
                then sort_values Date (select_balance_asset (df_balance st) (Asset sell) d)
                else if METHOD cfg = ''LIFO''
                then sort_values_descending Date
                       (select_balance_asset (df_balance st) (Asset sell) d)
                else sort_values_descending Unit_Price
                       (select_balance_asset (df_balance st) (Asset sell) d)))))))
         (Asset sell) d"
      by blast
    define sorted where "sorted =
               (if METHOD cfg = ''FIFO''
                then sort_values Date (select_balance_asset (df_balance st) (Asset sell) d)
                else if METHOD cfg = ''LIFO''
                then sort_values_descending Date
                       (select_balance_asset (df_balance st) (Asset sell) d)
                else sort_values_descending Unit_Price
                       (select_balance_asset (df_balance st) (Asset sell) d))"
    obtain g t upd tot where
      x: "tax_calculator_XYFO cfg (Units sell) (Unit_Price sell) sorted = (g, t, upd, tot)"
      by (metis prod_cases4)
    have all: "\<forall>r\<in>set sorted. Asset r = Asset sell \<and> Date r < d"
      by (simp add: sorted_def sort_values_def sort_values_descending_def
          select_balance_asset_def)
    have "\<forall>r\<in>set upd. Asset r = Asset sell \<and> Date r < d"
      using tax_calculator_XYFO_keeps[OF x, where P = "\<lambda>x y. x = Asset sell \<and> y < d"] all
      by simp
    then have k: "\<forall>r\<in>set (remove_empty_orders upd). Asset r = Asset sell \<and> Date r < d"
      by (simp add: remove_empty_orders_def)
    have e: "remove_empty_orders upd = remove_empty_orders
               (fst (snd (snd (tax_calculator_XYFO cfg (Units sell) (Unit_Price sell) sorted))))"
      by (simp add: x)
    have b: "df_balance st' = rebuild_balance (df_balance st) (remove_empty_orders upd)
               (Asset sell) d"
      using s x by (simp add: sorted_def)
    show ?thesis
      using False f le k b e unfolding sorted_def select_balance_asset_def by blast
  qed
next
  assume "filter (\<lambda>r. Type r = ''Sell'' \<and> Date r = db) txsb = sellb # restb
      \<and> sum_list (map Units
           (filter (\<lambda>r. Asset r = Asset sellb \<and> Date r < db) (df_balance stb)))
         < Units sellb"
  then show "sell_event cfgb txsb stb db = Inl TooManyUnits"
    using sell_event_too_many_units[of db txsb sellb restb stb cfgb]
    by (simp add: select_balance_asset_def)
next
  assume ok: "swap_event cfgc txsc stc dc = Inr stc'"
  from swap_event_InrD[OF ok] obtain out inn rest pooled upd tot where
    f: "filter (\<lambda>r. Type r = ''Swap'' \<and> Date r = dc) txsc = out # inn # rest"
    and w: "weighted_average_price (select_balance_asset (df_balance stc) (Asset out) dc)
              = Some pooled"
    and u: "update_balance (select_balance_asset (df_balance stc) (Asset out) dc)
              (Units out) (Asset out) = Some (upd, tot)"
    and s: "stc' = stc\<lparr>df_balance := rebuild_balance (df_balance stc)
                 (upd @ [inn\<lparr>Unit_Price := pooled * Units out / Units inn,
                              Currency := ''EUR''\<rparr>]) (Asset out) dc,
               average_purchase_price := Some (pooled * Units out / Units inn)\<rparr>"
    by blast
  have k: "\<forall>r\<in>set upd. Asset r = Asset out \<and> Date r < dc"
    using update_balance_keeps[OF u, where P = "\<lambda>x y. x = Asset out \<and> y < dc"]
    by (simp add: select_balance_asset_def)
  have b: "df_balance stc' = rebuild_balance (df_balance stc)
             (upd @ [inn\<lparr>Unit_Price := pooled * Units out / Units inn,
                          Currency := ''EUR''\<rparr>])
             (Asset out) dc"
    by (simp add: s)
  show "\<exists>out inn rest upd tot pooled.
          filter (\<lambda>r. Type r = ''Swap'' \<and> Date r = dc) txsc = out # inn # rest
        \<and> weighted_average_price
            (filter (\<lambda>r. Asset r = Asset out \<and> Date r < dc) (df_balance stc))
            = Some pooled
        \<and> update_balance
            (filter (\<lambda>r. Asset r = Asset out \<and> Date r < dc) (df_balance stc))
            (Units out) (Asset out) = Some (upd, tot)
        \<and> (\<forall>r\<in>set upd. Asset r = Asset out \<and> Date r < dc)
        \<and> df_balance stc' = rebuild_balance (df_balance stc)
             (upd @ [inn\<lparr>Unit_Price := pooled * Units out / Units inn,
                          Currency := ''EUR''\<rparr>])
             (Asset out) dc"
    using f w u k b unfolding select_balance_asset_def by blast
qed

theorem disposals_deplete_lots_strictly_before_witness:
  "sell_event fifo_config
     [transaction 2 ''Swap'' ''B'' 1 0, transaction 2 ''Swap'' ''A'' 4 0,
      transaction 3 ''Sell'' ''A'' 3 5]
     \<lparr>df_balance = [purchase 1 ''A'' 2 1, purchase 2 ''A'' 4 2, purchase 3 ''A'' 9 3],
      sales_taxes = [], average_purchase_price = Some 2\<rparr> 3
   = Inr \<lparr>df_balance = [purchase 2 ''A'' 3 2],
          sales_taxes = [\<lparr>Capital_Gain = 11, Taxes = 121 / 40, Net_Profit = 319 / 40,
                          Average_Unit_Price = 2\<rparr>],
          average_purchase_price = Some 2\<rparr>
   \<and> sell_event default_config [transaction 2 ''Sell'' ''A'' 3 3]
       (ledger_state [purchase 1 ''A'' 1 1, purchase 2 ''A'' 5 1]) 2
     = Inl TooManyUnits
   \<and> swap_event default_config
       [transaction 2 ''Swap'' ''A'' 1 0, transaction 2 ''Swap'' ''B'' 2 0]
       (ledger_state [purchase 1 ''A'' 2 1, purchase 2 ''A'' 5 1]) 2
     = Inr \<lparr>df_balance = [purchase 1 ''A'' 1 1, transaction 2 ''Swap'' ''B'' 2 (1 / 2)],
            sales_taxes = [], average_purchase_price = Some (1 / 2)\<rparr>"
proof -
  let ?txs = "[transaction 2 ''Swap'' ''B'' 1 0, transaction 2 ''Swap'' ''A'' 4 0,
               transaction 3 ''Sell'' ''A'' 3 5]"
  let ?st = "\<lparr>df_balance = [purchase 1 ''A'' 2 1, purchase 2 ''A'' 4 2, purchase 3 ''A'' 9 3],
              sales_taxes = [], average_purchase_price = Some 2\<rparr>"
  let ?st' = "\<lparr>df_balance = [purchase 2 ''A'' 3 2],
          sales_taxes = [\<lparr>Capital_Gain = 11, Taxes = 121 / 40, Net_Profit = 319 / 40,
                          Average_Unit_Price = 2 :: rat\<rparr>],
          average_purchase_price = Some 2\<rparr>"
  let ?txs2 = "[transaction 2 ''Sell'' ''A'' 3 3]"
  let ?st2 = "ledger_state [purchase 1 ''A'' 1 1, purchase 2 ''A'' 5 1]"
  let ?txs3 = "[transaction 2 ''Swap'' ''A'' 1 0, transaction 2 ''Swap'' ''B'' 2 0]"
  let ?st3 = "ledger_state [purchase 1 ''A'' 2 1, purchase 2 ''A'' 5 1]"
  let ?st3' = "\<lparr>df_balance = [purchase 1 ''A'' 1 1, transaction 2 ''Swap'' ''B'' 2 (1 / 2)],
            sales_taxes = [], average_purchase_price = Some (1 / 2)\<rparr>"
  have sale: "sell_event fifo_config ?txs ?st 3 = Inr ?st'"
    by code_simp
  have short: "filter (\<lambda>r. Type r = ''Sell'' \<and> Date r = 2) ?txs2
                 = transaction 2 ''Sell'' ''A'' 3 3 # []
      \<and> sum_list (map Units
           (filter (\<lambda>r. Asset r = Asset (transaction 2 ''Sell'' ''A'' 3 3) \<and> Date r < 2)
              (df_balance ?st2)))
         < Units (transaction 2 ''Sell'' ''A'' 3 3)"
    by (simp add: transaction_def purchase_def ledger_state_def)
  have swap: "swap_event default_config ?txs3 ?st3 2 = Inr ?st3'"
    by code_simp
  note all = disposals_deplete_lots_strictly_before
         [where cfg = fifo_config and txs = ?txs and st = ?st and d = 3 and st' = ?st'
            and cfgb = default_config and txsb = ?txs2 and stb = ?st2 and db = 2
            and sellb = "transaction 2 ''Sell'' ''A'' 3 3" and restb = "[]"
            and cfgc = default_config and txsc = ?txs3 and stc = ?st3 and dc = 2
            and stc' = ?st3']
  from all short have "sell_event default_config ?txs2 ?st2 2 = Inl TooManyUnits"
    by blast
  with sale swap show ?thesis by simp
qed

text \<open>
  C8. Claim: after a sale, every lot of another asset and every lot of the sold asset
  dated after the sale is in the ledger unchanged. The new ledger is put together from
  the rows dated before the sale and the rows dated after it, so a row dated at the
  sale is in neither part. With a lot of asset B bought at the time asset A is sold,
  the ledger after the sale holds the rest of the A lot and no B lot. The rows dated
  before or after the sale are kept as claimed (\<open>sell_event_keeps_other_rows\<close>).
\<close>

theorem sale_drops_lot_dated_at_the_sale:
  "sell_event default_config [transaction 2 ''Sell'' ''A'' 1 3]
     (ledger_state [purchase 1 ''A'' 2 1, purchase 2 ''B'' 1 1]) 2
   = Inr \<lparr>df_balance = [purchase 1 ''A'' 1 1],
          sales_taxes = [\<lparr>Capital_Gain = 2, Taxes = 11 / 20, Net_Profit = 29 / 20,
                          Average_Unit_Price = 1\<rparr>],
          average_purchase_price = Some 1\<rparr>"
  by code_simp

text \<open>
  C9. Claim: after every processing step every lot remaining in the ledger has units
  above zero. Only the rows a step has depleted are tested for their units. The row a
  swap inserts is not: a swap of 1 unit of A for -1 unit of B leaves a lot of -1 unit
  in the ledger. The rows a step does not deplete are not either: a purchase of 0 units
  of B is still in the ledger after a whole run that sells A.
\<close>

theorem lots_without_units_counterexample:
  "swap_event default_config
     [transaction 3 ''Swap'' ''A'' 1 0, transaction 3 ''Swap'' ''B'' (- 1) 0]
     (ledger_state [purchase 1 ''A'' 2 1]) 3
   = Inr \<lparr>df_balance = [purchase 1 ''A'' 1 1, transaction 3 ''Swap'' ''B'' (- 1) (- 1)],
          sales_taxes = [], average_purchase_price = Some (- 1)\<rparr>
   \<and> calculate_taxes default_config
       [purchase 1 ''A'' 2 1, purchase 1 ''B'' 0 1, transaction 3 ''Sell'' ''A'' 1 3]
     = Inr \<lparr>df_balance = [purchase 1 ''A'' 1 1, purchase 1 ''B'' 0 1],
            sales_taxes = [\<lparr>Capital_Gain = 2, Taxes = 11 / 20, Net_Profit = 29 / 20,
                            Average_Unit_Price = 1\<rparr>],
            average_purchase_price = Some 1\<rparr>"
  by code_simp

text \<open>
  C9, amended. When every row of the file has units above zero, every lot in the ledger
  has units above zero at the start of the run and after each sale or swap of it, under
  any method: the statement holds of the state reached from the initial ledger by any
  sequence of events that go through.
\<close>

theorem units_stay_positive:
  assumes "\<forall>r\<in>set rows. 0 < Units r"
      and "process_changes cfg (map (load_transaction cfg) rows)
             (initial_state (map (load_transaction cfg) rows)) changes = Inr st'"
  shows "\<forall>r\<in>set (df_balance st'). 0 < Units r"
proof -
  let ?txs = "map (load_transaction cfg) rows"
  have units: "\<forall>r\<in>set ?txs. 0 < Units r"
    using assms(1) by (auto simp: Units_load_transaction)
  then have start: "\<forall>r\<in>set (df_balance (initial_state ?txs)). 0 < Units r"
    by (auto simp: initial_state_def df_purchase_def)
  from units have swaps: "\<forall>r\<in>set ?txs. Type r = ''Swap'' \<longrightarrow> 0 < Units r"
    by blast
  from process_changes_units_positive[OF assms(2) start swaps] show ?thesis .
qed

theorem units_stay_positive_witness:
  "process_changes fifo_config
     (map (load_transaction fifo_config)
        [purchase 1 ''A'' 10 1, purchase 2 ''B'' 1 1,
         transaction 3 ''Swap'' ''A'' 10 0, transaction 3 ''Swap'' ''B'' 5 0])
     (initial_state (map (load_transaction fifo_config)
        [purchase 1 ''A'' 10 1, purchase 2 ''B'' 1 1,
         transaction 3 ''Swap'' ''A'' 10 0, transaction 3 ''Swap'' ''B'' 5 0]))
     [(3, ''Swap'')]
   = Inr \<lparr>df_balance = [purchase 2 ''B'' 1 1, transaction 3 ''Swap'' ''B'' 5 2],
          sales_taxes = [], average_purchase_price = Some 2\<rparr>
   \<and> 0 < Units (purchase 2 ''B'' 1 1)
   \<and> 0 < Units (transaction 3 ''Swap'' ''B'' 5 2)"
proof -
  let ?rows = "[purchase 1 ''A'' 10 1, purchase 2 ''B'' 1 1,
                transaction 3 ''Swap'' ''A'' 10 0, transaction 3 ''Swap'' ''B'' 5 0]"
  let ?st' = "\<lparr>df_balance = [purchase 2 ''B'' 1 1, transaction 3 ''Swap'' ''B'' 5 2],
          sales_taxes = [], average_purchase_price = Some 2\<rparr>"
  have units: "\<forall>r\<in>set ?rows. 0 < Units r"
    by (simp add: purchase_def transaction_def)
  have run: "process_changes fifo_config (map (load_transaction fifo_config) ?rows)
               (initial_state (map (load_transaction fifo_config) ?rows)) [(3, ''Swap'')]
             = Inr ?st'"
    by code_simp
  from units_stay_positive[OF units run] run show ?thesis
    by simp
qed

text \<open>
  C10. The rows of airdrops, staking and mining take the configured currency when the
  file is loaded. The lot that a swap inserts for the asset received is the second swap
  row with the derived price and the currency \<open>''EUR''\<close>, whatever currency is
  configured.
\<close>

theorem swap_in_lot_currency_is_EUR:
  "(Type r \<in> {''Airdrop'', ''Staking'', ''Mining''} \<longrightarrow>
      Currency (load_transaction cfg r) = CURRENCY cfg)
   \<and> (swap_event cfg txs st d = Inr st' \<longrightarrow>
       (\<exists>out inn rest upd price.
           filter (\<lambda>r. Type r = ''Swap'' \<and> Date r = d) txs = out # inn # rest
         \<and> df_balance st' = rebuild_balance (df_balance st)
              (upd @ [inn\<lparr>Unit_Price := price, Currency := ''EUR''\<rparr>]) (Asset out) d
         \<and> inn\<lparr>Unit_Price := price, Currency := ''EUR''\<rparr> \<in> set (df_balance st')))"
proof (intro conjI impI)
  assume "Type r \<in> {''Airdrop'', ''Staking'', ''Mining''}"
  then show "Currency (load_transaction cfg r) = CURRENCY cfg"
    by (auto simp: load_transaction_def Let_def)
next
  assume "swap_event cfg txs st d = Inr st'"
  from swap_event_InrD[OF this] obtain out inn rest pooled upd tot where
    f: "filter (\<lambda>r. Type r = ''Swap'' \<and> Date r = d) txs = out # inn # rest"
    and s: "st' = st\<lparr>df_balance := rebuild_balance (df_balance st)
                 (upd @ [inn\<lparr>Unit_Price := pooled * Units out / Units inn,
                              Currency := ''EUR''\<rparr>]) (Asset out) d,
               average_purchase_price := Some (pooled * Units out / Units inn)\<rparr>"
    by blast
  have "inn\<lparr>Unit_Price := pooled * Units out / Units inn, Currency := ''EUR''\<rparr>
          \<in> set (df_balance st')"
    by (simp add: s set_rebuild_balance)
  with f s show "\<exists>out inn rest upd price.
           filter (\<lambda>r. Type r = ''Swap'' \<and> Date r = d) txs = out # inn # rest
         \<and> df_balance st' = rebuild_balance (df_balance st)
              (upd @ [inn\<lparr>Unit_Price := price, Currency := ''EUR''\<rparr>]) (Asset out) d
         \<and> inn\<lparr>Unit_Price := price, Currency := ''EUR''\<rparr> \<in> set (df_balance st')"
    by (intro exI[of _ out] exI[of _ inn] exI[of _ rest] exI[of _ upd]
          exI[of _ "pooled * Units out / Units inn"]) simp
qed


theorem swap_in_lot_currency_is_EUR_witness:
  "Currency (load_transaction usd_config (transaction 1 ''Airdrop'' ''A'' 10 5)) = ''USD''
   \<and> swap_event usd_config
        [transaction 3 ''Swap'' ''A'' 10 0, transaction 3 ''Swap'' ''B'' 5 0]
        (ledger_state [load_transaction usd_config (transaction 1 ''Airdrop'' ''A'' 10 5)]) 3
     = Inr \<lparr>df_balance = [transaction 3 ''Swap'' ''B'' 5 0],
            sales_taxes = [], average_purchase_price = Some 0\<rparr>
   \<and> Currency (transaction 3 ''Swap'' ''B'' 5 0) = ''EUR''"
proof -
  let ?drop = "transaction 1 ''Airdrop'' ''A'' 10 5"
  let ?txs = "[transaction 3 ''Swap'' ''A'' 10 0, transaction 3 ''Swap'' ''B'' 5 0]"
  let ?st = "ledger_state [load_transaction usd_config ?drop]"
  let ?st' = "\<lparr>df_balance = [transaction 3 ''Swap'' ''B'' 5 0],
            sales_taxes = [], average_purchase_price = Some 0\<rparr>"
  have kind: "Type ?drop \<in> {''Airdrop'', ''Staking'', ''Mining''}"
    by (simp add: transaction_def)
  have swap: "swap_event usd_config ?txs ?st 3 = Inr ?st'"
    by code_simp
  have cur: "CURRENCY usd_config = ''USD''"
    by (simp add: usd_config_def default_config_def)
  have eur: "Currency (transaction 3 ''Swap'' ''B'' 5 0) = ''EUR''"
    by (simp add: transaction_def)
  from swap_in_lot_currency_is_EUR
         [where r = ?drop and cfg = usd_config and txs = ?txs and st = ?st and d = 3
            and st' = ?st'] kind
  have "Currency (load_transaction usd_config ?drop) = CURRENCY usd_config"
    by blast
  with swap cur eur show ?thesis by simp
qed

end
